theory Spec2Isabelle
  imports Complex_Main "HOL-Library.AList"
begin

section \<open>Values, exceptions and log output\<close>

text \<open>
  Python floats are idealised as real numbers: arithmetic is exact, and the only
  arithmetic failure kept is division by zero, which Python reports as
  \<^verbatim>\<open>ZeroDivisionError\<close>.  Every exception the modelled code can raise is a
  constructor of \<open>error\<close>; a computation returns the log records it emitted
  together with either the exception that ended it or its value.
\<close>

datatype error = KeyError | ZeroDivisionError | RuntimeError | NameError | TypeError

datatype log_event = LoggerWarning string | Printed string

type_synonym 'a result = "log_event list \<times> (error + 'a)"

definition ok :: "'a \<Rightarrow> 'a result" where
  "ok x = ([], Inr x)"

definition raise :: "error \<Rightarrow> 'a result" where
  "raise e = ([], Inl e)"

definition emit :: "log_event \<Rightarrow> unit result" where
  "emit ev = ([ev], Inr ())"

definition rbind :: "'a result \<Rightarrow> ('a \<Rightarrow> 'b result) \<Rightarrow> 'b result" where
  "rbind m f = (case m of
       (l, Inl e) \<Rightarrow> (l, Inl e)
     | (l, Inr x) \<Rightarrow> (case f x of (l', r) \<Rightarrow> (l @ l', r)))"

text \<open>
  A Python \<^verbatim>\<open>dict\<close> from strings to floats whose iteration order matters is an
  association list in insertion order; \<open>d[k]\<close> raises \<^verbatim>\<open>KeyError\<close> on a missing
  key and \<open>d[k] = v\<close> overwrites in place or appends.
\<close>

type_synonym py_dict = "(string \<times> real) list"

definition getitem :: "py_dict \<Rightarrow> string \<Rightarrow> real result" where
  "getitem d k = (case map_of d k of None \<Rightarrow> raise KeyError | Some v \<Rightarrow> ok v)"

definition setitem :: "py_dict \<Rightarrow> string \<Rightarrow> real \<Rightarrow> py_dict" where
  "setitem d k v = AList.update k v d"

definition contains :: "py_dict \<Rightarrow> string \<Rightarrow> bool" where
  "contains d k = (map_of d k \<noteq> None)"

text \<open>True division of floats: \<^verbatim>\<open>x / y\<close> raises when \<open>y\<close> is zero.\<close>

definition truediv :: "real \<Rightarrow> real \<Rightarrow> real result" where
  "truediv x y = (if y = 0 then raise ZeroDivisionError else ok (x / y))"

text \<open>
  An attribute that may still hold \<^verbatim>\<open>None\<close>; using \<^verbatim>\<open>None\<close> in arithmetic or
  in an ordering comparison raises \<^verbatim>\<open>TypeError\<close>.
\<close>

definition as_float :: "real option \<Rightarrow> real result" where
  "as_float v = (case v of None \<Rightarrow> raise TypeError | Some x \<Rightarrow> ok x)"

section \<open>MarketState\<close>

text \<open>
  \<^verbatim>\<open>chart_data\<close> maps a market name to its statistics; \<^verbatim>\<open>balances\<close> is kept
  polymorphic so that the same record serves as the object (the field is a reference
  into a store of dicts) and as its view (the field is the dict's contents).  The field
  \<^verbatim>\<open>fiat\<close> and the method \<^verbatim>\<open>price\<close> of the class are written \<open>ms_fiat\<close> and
  \<open>ms_price\<close>, because a proposed trade has attributes of the same names.
\<close>

record 'b market_state =
  chart_data :: "string \<rightharpoonup> (string \<rightharpoonup> real)"
  balances :: 'b
  time :: nat
  ms_fiat :: string

definition balance :: "py_dict market_state \<Rightarrow> string \<Rightarrow> real result" where
  "balance ms coin = getitem (balances ms) coin"

definition ms_price :: "'b market_state \<Rightarrow> string \<Rightarrow> string \<Rightarrow> real result" where
  "ms_price ms market key = (case chart_data ms market of
       None \<Rightarrow> raise KeyError
     | Some stats \<Rightarrow> (case stats key of None \<Rightarrow> raise KeyError | Some v \<Rightarrow> ok v))"

definition market_of :: "string \<Rightarrow> string \<Rightarrow> string" where
  "market_of base quote = base @ ''_'' @ quote"

definition no_market_message :: "string \<Rightarrow> string \<Rightarrow> string" where
  "no_market_message reference_coin coin =
     ''Couldn't find a market for '' @ reference_coin @ '':'' @ coin @ ''; has it been delisted?''"

definition estimate_value :: "'b market_state \<Rightarrow> string \<Rightarrow> real \<Rightarrow> string \<Rightarrow> real option result" where
  "estimate_value ms coin amount reference_coin =
     (if coin = reference_coin then ok (Some amount)
      else if chart_data ms (market_of reference_coin coin) \<noteq> None then
        rbind (ms_price ms (market_of reference_coin coin) ''weighted_average'')
          (\<lambda>reference_per_coin. ok (Some (amount * reference_per_coin)))
      else if chart_data ms (market_of coin reference_coin) \<noteq> None then
        rbind (ms_price ms (market_of coin reference_coin) ''weighted_average'')
          (\<lambda>coin_per_reference.
             rbind (truediv amount coin_per_reference) (\<lambda>v. ok (Some v)))
      else rbind (emit (LoggerWarning (no_market_message reference_coin coin)))
             (\<lambda>_. ok None))"

fun estimate_values_loop ::
  "'b market_state \<Rightarrow> string \<Rightarrow> (string \<times> real) list \<Rightarrow> py_dict \<Rightarrow> py_dict result" where
  "estimate_values_loop ms reference_coin [] estimated_values = ok estimated_values"
| "estimate_values_loop ms reference_coin ((coin, amount) # rest) estimated_values =
     rbind (estimate_value ms coin amount reference_coin)
       (\<lambda>value. estimate_values_loop ms reference_coin rest
          (setitem estimated_values coin (case value of None \<Rightarrow> 0 | Some v \<Rightarrow> v)))"

definition estimate_values :: "'b market_state \<Rightarrow> py_dict \<Rightarrow> string \<Rightarrow> py_dict result" where
  "estimate_values ms bals reference_coin = estimate_values_loop ms reference_coin bals []"

definition estimate_total_value :: "'b market_state \<Rightarrow> py_dict \<Rightarrow> string \<Rightarrow> real result" where
  "estimate_total_value ms bals reference_coin =
     rbind (estimate_values ms bals reference_coin) (\<lambda>vals. ok (sum_list (map snd vals)))"

text \<open>
  \<^verbatim>\<open>round(x, 2)\<close>: the nearest multiple of one hundredth, a tie going to the even
  neighbour.
\<close>

definition round_half_even :: "real \<Rightarrow> int" where
  "round_half_even x =
     (let f = \<lfloor>x\<rfloor>; d = x - of_int f in
      if d < 1 / 2 then f
      else if 1 / 2 < d then f + 1
      else if even f then f else f + 1)"

definition round2 :: "real \<Rightarrow> real" where
  "round2 x = of_int (round_half_even (x * 100)) / 100"

definition estimate_total_value_usd :: "'b market_state \<Rightarrow> py_dict \<Rightarrow> real result" where
  "estimate_total_value_usd ms bals =
     rbind (estimate_total_value ms bals ''BTC'')
       (\<lambda>btc_val. rbind (ms_price ms ''USD_BTC'' ''weighted_average'')
          (\<lambda>p. ok (round2 (btc_val * p))))"

section \<open>ProposedTrade\<close>

text \<open>
  The class of proposed trades is a collaborator of the modelled files; the record
  holds the attributes they read and write.  \<^verbatim>\<open>market_price\<close>, \<^verbatim>\<open>price\<close>,
  \<^verbatim>\<open>sell_amount\<close> and \<^verbatim>\<open>buy_amount\<close> are written by the sizing code and are
  \<^verbatim>\<open>None\<close> until then.  The market adapter reads the trade through the attributes
  \<^verbatim>\<open>from_coin\<close>, \<^verbatim>\<open>to_coin\<close>, \<^verbatim>\<open>bid_amount\<close> and \<^verbatim>\<open>ask_amount\<close>.
  Trades are passed by value: a function that updates a trade in place returns the
  updated record.
\<close>

record proposed_trade =
  sell_coin :: string
  buy_coin :: string
  market_name :: string
  market_base_currency :: string
  fiat :: string
  fiat_value_to_trade :: real
  fee :: real
  market_price :: "real option"
  price :: "real option"
  sell_amount :: "real option"
  buy_amount :: "real option"
  from_coin :: string
  to_coin :: string
  bid_amount :: real
  ask_amount :: real

section \<open>MarketState: trade sizing\<close>

definition estimate_price :: "'b market_state \<Rightarrow> proposed_trade \<Rightarrow> proposed_trade result" where
  "estimate_price self trade =
     rbind (ms_price self (market_name trade) ''weighted_average'')
       (\<lambda>base_price.
          let trade = trade\<lparr>market_price := Some base_price\<rparr> in
          if buy_coin trade = market_base_currency trade
          then rbind (truediv 1 base_price) (\<lambda>p. ok (trade\<lparr>price := Some p\<rparr>))
          else ok (trade\<lparr>price := Some base_price\<rparr>))"

definition neither_fiat_message :: string where
  "neither_fiat_message = ''Proposing trade neither to nor from fiat''"

text \<open>
  The last branch of the shape test hands a warning record to the logger and then
  executes a bare \<^verbatim>\<open>raise\<close> with no exception being handled, which Python
  reports as \<^verbatim>\<open>RuntimeError\<close>.  The record is kept by its message; the trade
  passed along with it is not rendered.
\<close>

definition set_sell_amount :: "py_dict market_state \<Rightarrow> proposed_trade \<Rightarrow> proposed_trade result" where
  "set_sell_amount self trade =
     rbind (estimate_price self trade)
       (\<lambda>trade.
          rbind
            (if sell_coin trade = fiat trade
             then ok (trade\<lparr>sell_amount := Some (fiat_value_to_trade trade)\<rparr>)
             else if buy_coin trade = fiat trade
             then rbind (balance self (sell_coin trade))
               (\<lambda>held. rbind (as_float (price trade))
                  (\<lambda>p. let current_value = held * p;
                           value_to_sell = current_value - fiat_value_to_trade trade in
                       rbind (truediv value_to_sell p)
                         (\<lambda>s. ok (trade\<lparr>sell_amount := Some (if s < 0 then 0 else s)\<rparr>))))
             else rbind (emit (LoggerWarning neither_fiat_message)) (\<lambda>_. raise RuntimeError))
            (\<lambda>trade.
               rbind (as_float (sell_amount trade))
                 (\<lambda>s. rbind (as_float (price trade))
                    (\<lambda>p. let inv_amt = s - s * fee trade in
                         rbind (truediv inv_amt p)
                           (\<lambda>b. ok (trade\<lparr>buy_amount := Some b\<rparr>))))))"

section \<open>MarketState: simulate_trades\<close>

text \<open>
  The inner function \<^verbatim>\<open>simulate\<close> mutates the dict its parameter
  \<^verbatim>\<open>new_balances\<close> refers to.  A step on that dict returns the dict as it stands
  when the step ends, also when it ends by an exception.
\<close>

type_synonym 'a dict_step = "py_dict \<Rightarrow> py_dict \<times> 'a result"

definition lift :: "'a result \<Rightarrow> 'a dict_step" where
  "lift r d = (d, r)"

definition d_get :: "string \<Rightarrow> real dict_step" where
  "d_get k d = (d, getitem d k)"

definition d_set :: "string \<Rightarrow> real \<Rightarrow> unit dict_step" where
  "d_set k v d = (setitem d k v, ok ())"

definition sbind :: "'a dict_step \<Rightarrow> ('a \<Rightarrow> 'b dict_step) \<Rightarrow> 'b dict_step" where
  "sbind m f d = (case m d of
       (d1, (l, Inl e)) \<Rightarrow> (d1, (l, Inl e))
     | (d1, (l, Inr x)) \<Rightarrow> (case f x d1 of (d2, (l', r)) \<Rightarrow> (d2, (l @ l', r))))"

definition simulate :: "py_dict market_state \<Rightarrow> proposed_trade \<Rightarrow> unit dict_step" where
  "simulate self proposed =
     sbind (lift (set_sell_amount self proposed)) (\<lambda>proposed.
     sbind (d_get (sell_coin proposed)) (\<lambda>old.
     sbind (lift (as_float (sell_amount proposed))) (\<lambda>s.
     sbind (d_set (sell_coin proposed) (old - s)) (\<lambda>_.
     sbind (\<lambda>d. if contains d (buy_coin proposed) then (d, ok ())
                 else d_set (buy_coin proposed) 0 d) (\<lambda>_.
     sbind (lift (as_float (sell_amount proposed))) (\<lambda>s'.
     sbind (lift (as_float (price proposed))) (\<lambda>p.
     sbind (lift (truediv s' p)) (\<lambda>est_trade_amt.
     sbind (d_get (buy_coin proposed)) (\<lambda>held.
     d_set (buy_coin proposed) (held + est_trade_amt))))))))))"

text \<open>
  Dict objects live in a store, a reference being an index into it.
  \<^verbatim>\<open>copy()\<close> allocates a fresh dict with the same items.  The object
  \<^verbatim>\<open>self\<close> holds a reference to its balances; its methods see the contents the
  store has at the time of the call.
\<close>

type_synonym heap = "py_dict list"

definition dict_copy :: "heap \<Rightarrow> nat \<Rightarrow> heap \<times> nat" where
  "dict_copy h a = (h @ [h ! a], length h)"

definition view :: "heap \<Rightarrow> nat market_state \<Rightarrow> py_dict market_state" where
  "view h ms = \<lparr>chart_data = chart_data ms, balances = h ! balances ms,
                time = time ms, ms_fiat = ms_fiat ms\<rparr>"

definition simulate_at ::
  "heap \<Rightarrow> nat market_state \<Rightarrow> proposed_trade \<Rightarrow> nat \<Rightarrow> heap \<times> nat result" where
  "simulate_at h self proposed new_balances =
     (case simulate (view h self) proposed (h ! new_balances) of
        (d, (l, Inl e)) \<Rightarrow> (h[new_balances := d], (l, Inl e))
      | (d, (l, Inr _)) \<Rightarrow> (h[new_balances := d], (l, Inr new_balances)))"

fun simulate_loop ::
  "heap \<Rightarrow> nat market_state \<Rightarrow> proposed_trade list \<Rightarrow> nat \<Rightarrow> heap \<times> nat result" where
  "simulate_loop h self [] new_balances = (h, ok new_balances)"
| "simulate_loop h self (proposed # rest) new_balances =
     (case simulate_at h self proposed new_balances of
        (h1, (l, Inl e)) \<Rightarrow> (h1, (l, Inl e))
      | (h1, (l, Inr new_balances1)) \<Rightarrow>
          (case simulate_loop h1 self rest new_balances1 of
             (h2, (l', r)) \<Rightarrow> (h2, (l @ l', r))))"

definition simulate_trades ::
  "heap \<Rightarrow> nat market_state \<Rightarrow> proposed_trade list \<Rightarrow> heap \<times> nat result" where
  "simulate_trades h self proposed_trades =
     (case dict_copy h (balances self) of
        (h1, new_balances) \<Rightarrow> simulate_loop h1 self proposed_trades new_balances)"

section \<open>MarketAdapter\<close>

text \<open>
  In \<^verbatim>\<open>is_legal\<close> the warning of the second test reads a name \<^verbatim>\<open>balances\<close>
  that is bound neither in the method nor in its module, so evaluating the arguments
  of that \<^verbatim>\<open>print\<close> raises \<^verbatim>\<open>NameError\<close> before anything is printed.
\<close>

definition is_legal :: "proposed_trade \<Rightarrow> py_dict market_state \<Rightarrow> bool result" where
  "is_legal proposed market_state =
     (if price proposed = None \<or> price proposed = Some 0
      then rbind (emit (Printed
             ''WARN: Filtering out proposed trade: trade has no price. Proposed''))
             (\<lambda>_. ok False)
      else rbind (getitem (balances market_state) (from_coin proposed))
        (\<lambda>held.
           if held < bid_amount proposed then raise NameError
           else if bid_amount proposed < 0 \<or> ask_amount proposed < 0
           then rbind (emit (Printed
             ''WARN: Filtering out proposed trade: bid/ask amounts zero or negative. Proposed''))
             (\<lambda>_. ok False)
           else if (from_coin proposed = fiat proposed \<and> bid_amount proposed < 1 / 10000)
                 \<or> (to_coin proposed = fiat proposed \<and> ask_amount proposed < 1 / 10000)
           then rbind (emit (Printed
             ''WARN: Filtering out proposed trade: transaction too small. Proposed''))
             (\<lambda>_. ok False)
           else if chart_data market_state (market_name proposed) = None
           then rbind (emit (Printed
             ''WARN: Filtering out proposed trade: market name not in chart_data. Proposed''))
             (\<lambda>_. ok False)
           else ok True))"

text \<open>
  \<^verbatim>\<open>filter_legal\<close> is a generator.  Its behaviour when consumed to the end is the
  output printed, the trades yielded, and the exception that ended it, if any.
\<close>

fun filter_legal ::
  "proposed_trade list \<Rightarrow> py_dict market_state
     \<Rightarrow> log_event list \<times> proposed_trade list \<times> error option" where
  "filter_legal [] market_state = ([], [], None)"
| "filter_legal (proposed # rest) market_state =
     (case is_legal proposed market_state of
        (l, Inl e) \<Rightarrow> (l, [], Some e)
      | (l, Inr legal) \<Rightarrow>
          (case filter_legal rest market_state of
             (l', yielded, r) \<Rightarrow> (l @ l', (if legal then [proposed] else []) @ yielded, r)))"

section \<open>Fund\<close>

text \<open>
  Binding the arguments of a call to \<^verbatim>\<open>estimate_total_value_usd(self, balances)\<close>:
  the method takes exactly one argument besides \<^verbatim>\<open>self\<close>, and a call with any
  other number of arguments raises \<^verbatim>\<open>TypeError\<close>.
\<close>

definition call_estimate_total_value_usd ::
  "'b market_state \<Rightarrow> py_dict list \<Rightarrow> real result" where
  "call_estimate_total_value_usd ms args =
     (case args of [bals] \<Rightarrow> estimate_total_value_usd ms bals | _ \<Rightarrow> raise TypeError)"

text \<open>
  The strategy and the concrete market adapter are collaborators: \<open>step\<close> takes their
  methods as parameters, the adapter's state being threaded through.  The adapter's
  \<^verbatim>\<open>execute\<close> receives the generator made by \<^verbatim>\<open>filter_legal\<close>.  The value of
  \<open>step\<close> is the exception it ends with or the adapter's state and the number returned;
  what the collaborators print is not tracked.
\<close>

definition step ::
  "('a \<Rightarrow> 't \<Rightarrow> error + 'a \<times> py_dict market_state)
   \<Rightarrow> (py_dict market_state \<Rightarrow> 'h \<Rightarrow> error + proposed_trade list)
   \<Rightarrow> ('a \<Rightarrow> log_event list \<times> proposed_trade list \<times> error option
          \<Rightarrow> py_dict market_state \<Rightarrow> error + 'a)
   \<Rightarrow> 'a \<Rightarrow> 'h \<Rightarrow> 't \<Rightarrow> error + 'a \<times> real" where
  "step get_market_state propose_trades execute adapter history tm =
     (case get_market_state adapter tm of
        Inl e \<Rightarrow> Inl e
      | Inr (adapter1, market_state) \<Rightarrow>
          (case propose_trades market_state history of
             Inl e \<Rightarrow> Inl e
           | Inr proposed_trades \<Rightarrow>
               (case (if proposed_trades \<noteq> []
                      then execute adapter1 (filter_legal proposed_trades market_state)
                             market_state
                      else Inr adapter1) of
                  Inl e \<Rightarrow> Inl e
                | Inr adapter2 \<Rightarrow>
                    (case snd (call_estimate_total_value_usd market_state []) of
                       Inl e \<Rightarrow> Inl e
                     | Inr usd_value \<Rightarrow> Inr (adapter2, usd_value)))))"

section \<open>Example snapshots and trades\<close>

text \<open>
  Concrete inputs on which the properties below are exercised: a chart with only the
  \<^verbatim>\<open>weighted_average\<close> statistic per market, a snapshot over it, and a trade as
  a strategy proposes it, before any sizing.
\<close>

definition chart_of :: "(string \<times> real) list \<Rightarrow> string \<rightharpoonup> (string \<rightharpoonup> real)" where
  "chart_of ps = map_of (map (\<lambda>(m, p). (m, [''weighted_average'' \<mapsto> p])) ps)"

definition snapshot :: "(string \<times> real) list \<Rightarrow> 'b \<Rightarrow> 'b market_state" where
  "snapshot ps bals = \<lparr>chart_data = chart_of ps, balances = bals, time = 0, ms_fiat = ''BTC''\<rparr>"

definition trade_of ::
  "string \<Rightarrow> string \<Rightarrow> string \<Rightarrow> string \<Rightarrow> string \<Rightarrow> real \<Rightarrow> real \<Rightarrow> proposed_trade" where
  "trade_of sell buy market base f v fe =
     \<lparr>sell_coin = sell, buy_coin = buy, market_name = market, market_base_currency = base,
      fiat = f, fiat_value_to_trade = v, fee = fe, market_price = None, price = None,
      sell_amount = None, buy_amount = None, from_coin = sell, to_coin = buy,
      bid_amount = 0, ask_amount = 0\<rparr>"

section \<open>Basic facts\<close>

lemma rbind_ok [simp]: "rbind (ok x) f = f x"
  by (simp add: rbind_def ok_def split: prod.splits)

lemma rbind_raise [simp]: "rbind (raise e) f = raise e"
  by (simp add: rbind_def raise_def)

lemma rbind_Inl [simp]: "rbind (l, Inl e) f = (l, Inl e)"
  by (simp add: rbind_def)

lemma rbind_Inr [simp]: "rbind (l, Inr x) f = (l @ fst (f x), snd (f x))"
  by (simp add: rbind_def split: prod.splits)

lemma ok_neq_raise [simp]: "ok x \<noteq> raise e" "raise e \<noteq> ok x"
  by (simp_all add: ok_def raise_def)

lemma ms_price_found:
  "chart_data ms m = Some stats \<Longrightarrow> stats k = Some p \<Longrightarrow> ms_price ms m k = ok p"
  by (simp add: ms_price_def)

lemma map_of_setitem: "map_of (setitem d k v) k' = (if k' = k then Some v else map_of d k')"
  by (simp add: setitem_def update_conv)

lemma estimate_value_no_market:
  assumes "coin \<noteq> reference_coin"
    and "chart_data ms (market_of reference_coin coin) = None"
    and "chart_data ms (market_of coin reference_coin) = None"
  shows "estimate_value ms coin amount reference_coin =
           ([LoggerWarning (no_market_message reference_coin coin)], Inr None)"
  using assms by (simp add: estimate_value_def emit_def ok_def)

lemma estimate_values_loop_zero:
  assumes "coin \<noteq> reference_coin"
    and "chart_data ms (market_of reference_coin coin) = None"
    and "chart_data ms (market_of coin reference_coin) = None"
  shows "estimate_values_loop ms reference_coin bals acc = (l, Inr vals)
         \<Longrightarrow> coin \<in> fst ` set bals \<or> map_of acc coin = Some 0
         \<Longrightarrow> map_of vals coin = Some 0"
proof (induction bals arbitrary: acc l)
  case Nil
  then show ?case by (simp add: ok_def)
next
  case (Cons item rest)
  obtain k amt where item: "item = (k, amt)" by (cases item)
  obtain l1 r1 where ev: "estimate_value ms k amt reference_coin = (l1, r1)"
    by (cases "estimate_value ms k amt reference_coin")
  show ?case
  proof (cases r1)
    case (Inl e)
    with Cons.prems(1) item ev show ?thesis by simp
  next
    case (Inr v)
    let ?acc = "setitem acc k (case v of None \<Rightarrow> 0 | Some x \<Rightarrow> x)"
    obtain l2 where rest: "estimate_values_loop ms reference_coin rest ?acc = (l2, Inr vals)"
      using Cons.prems(1) item ev Inr
      by (cases "estimate_values_loop ms reference_coin rest ?acc") simp
    have "coin \<in> fst ` set rest \<or> map_of ?acc coin = Some 0"
    proof (cases "k = coin")
      case True
      with ev Inr estimate_value_no_market [OF assms, of amt] have "v = None" by simp
      with True show ?thesis by (simp add: map_of_setitem)
    next
      case False
      with Cons.prems(2) item show ?thesis by (auto simp add: map_of_setitem)
    qed
    with Cons.IH [OF rest] show ?thesis by simp
  qed
qed

lemma estimate_price_Inr:
  assumes "estimate_price ms t = (l, Inr t1)"
  shows "l = [] \<and> (\<exists>bp p. ms_price ms (market_name t) ''weighted_average'' = ok bp
           \<and> t1 = t\<lparr>market_price := Some bp, price := Some p\<rparr> \<and> (p = 0 \<longrightarrow> bp = 0)
           \<and> (if buy_coin t = market_base_currency t then bp \<noteq> 0 \<and> p = 1 / bp else p = bp))"
proof -
  obtain l0 r0 where pr: "ms_price ms (market_name t) ''weighted_average'' = (l0, r0)"
    by (cases "ms_price ms (market_name t) ''weighted_average''")
  have l0: "l0 = []"
    using pr by (auto simp add: ms_price_def raise_def ok_def split: option.splits)
  show ?thesis
  proof (cases r0)
    case (Inl e)
    with assms pr show ?thesis by (simp add: estimate_price_def)
  next
    case (Inr bp)
    with assms pr l0 show ?thesis
      by (auto simp add: estimate_price_def Let_def truediv_def ok_def raise_def
            split: if_splits)
  qed
qed

lemma estimate_price_log:
  "estimate_price ms t = (l, r) \<Longrightarrow> l = []"
  by (auto simp add: estimate_price_def ms_price_def Let_def truediv_def ok_def raise_def
        rbind_def split: option.splits if_splits)

lemma set_sell_amount_sell_fiat_eq:
  assumes "sell_coin t = fiat t"
    and "estimate_price ms t = ok t1" and "price t1 = Some p"
  shows "set_sell_amount ms t =
      (if p = 0 then raise ZeroDivisionError
       else ok (t1\<lparr>sell_amount := Some (fiat_value_to_trade t),
                    buy_amount := Some (fiat_value_to_trade t * (1 - fee t) / p)\<rparr>))"
proof -
  from assms(2) have "estimate_price ms t = ([], Inr t1)" by (simp add: ok_def)
  from estimate_price_Inr [OF this] obtain bp q where
    t1: "t1 = t\<lparr>market_price := Some bp, price := Some q\<rparr>" by blast
  with assms(3) have q: "q = p" by simp
  show ?thesis
    using assms(1) t1 q
    by (simp add: set_sell_amount_def assms(2) as_float_def truediv_def Let_def
          algebra_simps)
qed

lemma set_sell_amount_Inr:
  assumes "set_sell_amount ms t = (l, Inr t')"
  shows "l = [] \<and> (\<exists>t1 p s. estimate_price ms t = ok t1 \<and> price t1 = Some p \<and> p \<noteq> 0
          \<and> t' = t1\<lparr>sell_amount := Some s, buy_amount := Some ((s - s * fee t) / p)\<rparr>
          \<and> (if sell_coin t = fiat t then s = fiat_value_to_trade t
              else buy_coin t = fiat t \<and> (\<exists>held. balance ms (sell_coin t) = ok held
                \<and> s = max 0 ((held * p - fiat_value_to_trade t) / p))))"
proof -
  obtain l1 r1 where ep: "estimate_price ms t = (l1, r1)"
    by (cases "estimate_price ms t")
  show ?thesis
  proof (cases r1)
    case (Inl e)
    with assms ep show ?thesis by (simp add: set_sell_amount_def)
  next
    case (Inr t1)
    with ep estimate_price_Inr [of ms t l1 t1] obtain bp p where
      l1: "l1 = []" and t1: "t1 = t\<lparr>market_price := Some bp, price := Some p\<rparr>"
      by blast
    have ep': "estimate_price ms t = ok t1" using ep Inr l1 by (simp add: ok_def)
    have pr: "price t1 = Some p" using t1 by simp
    show ?thesis
    proof (cases "sell_coin t = fiat t")
      case True
      from set_sell_amount_sell_fiat_eq [OF True ep' pr] assms
      have "p \<noteq> 0" and "l = []" and
        "t' = t1\<lparr>sell_amount := Some (fiat_value_to_trade t),
                 buy_amount := Some (fiat_value_to_trade t * (1 - fee t) / p)\<rparr>"
        by (auto simp add: ok_def raise_def split: if_splits)
      with True ep' pr show ?thesis
        by (auto simp add: algebra_simps)
    next
      case False
      show ?thesis
      proof (cases "buy_coin t = fiat t")
        case nf: False
        with False assms t1 show ?thesis
          by (simp add: set_sell_amount_def ep' emit_def raise_def)
      next
        case bf: True
        obtain lb rb where b: "balance ms (sell_coin t) = (lb, rb)"
          by (cases "balance ms (sell_coin t)")
        have lb: "lb = []" using b
          by (auto simp add: balance_def getitem_def ok_def raise_def split: option.splits)
        show ?thesis
        proof (cases rb)
          case (Inl e)
          with False bf assms t1 b show ?thesis
            by (simp add: set_sell_amount_def ep')
        next
          case (Inr held)
          have bok: "balance ms (sell_coin t) = ok held" using b lb Inr by (simp add: ok_def)
          show ?thesis
          proof (cases "p = 0")
            case True
            with False bf assms t1 bok show ?thesis
              by (simp add: set_sell_amount_def ep' as_float_def truediv_def Let_def raise_def)
          next
            case pz: False
            with False bf assms t1 bok have
              "l = []" and "t' = t1\<lparr>sell_amount := Some (max 0 ((held * p - fiat_value_to_trade t) / p)),
                  buy_amount := Some ((max 0 ((held * p - fiat_value_to_trade t) / p)
                     - max 0 ((held * p - fiat_value_to_trade t) / p) * fee t) / p)\<rparr>"
              by (auto simp add: set_sell_amount_def ep' as_float_def truediv_def Let_def ok_def
                    max_def)
            with False bf ep' pr pz bok show ?thesis by auto
          qed
        qed
      qed
    qed
  qed
qed

lemma contains_setitem: "contains d k \<Longrightarrow> contains (setitem d k' v) k"
  by (simp add: contains_def map_of_setitem)

lemma getitem_absent: "\<not> contains d k \<Longrightarrow> getitem d k = raise KeyError"
  by (simp add: contains_def getitem_def)

lemma sbind_keys:
  assumes "\<And>d. contains d k \<Longrightarrow> contains (fst (m d)) k"
    and "\<And>x d. contains d k \<Longrightarrow> contains (fst (f x d)) k"
    and "contains d k"
  shows "contains (fst (sbind m f d)) k"
proof -
  obtain d1 l r where m: "m d = (d1, (l, r))" by (cases "m d") auto
  from assms(1) [OF assms(3)] m have d1: "contains d1 k" by simp
  show ?thesis
  proof (cases r)
    case (Inl e)
    with m d1 show ?thesis by (simp add: sbind_def)
  next
    case (Inr x)
    obtain d2 l2 r2 where f: "f x d1 = (d2, (l2, r2))" by (cases "f x d1") auto
    from assms(2) [OF d1, of x] f have "contains d2 k" by simp
    with m Inr f show ?thesis by (simp add: sbind_def)
  qed
qed

lemma simulate_keys:
  "contains d k \<Longrightarrow> contains (fst (simulate ms t d)) k"
  unfolding simulate_def
  by (intro sbind_keys) (simp_all add: lift_def d_get_def d_set_def contains_setitem)

lemma simulate_absent:
  assumes "\<not> contains d (sell_coin t)"
  shows "\<exists>e. snd (snd (simulate ms t d)) = Inl e
           \<and> (e = KeyError \<or> snd (set_sell_amount ms t) = Inl e)"
proof -
  obtain l r where s: "set_sell_amount ms t = (l, r)" by (cases "set_sell_amount ms t")
  show ?thesis
  proof (cases r)
    case (Inl e)
    with s show ?thesis by (simp add: simulate_def sbind_def lift_def)
  next
    case (Inr t')
    from set_sell_amount_Inr [of ms t l t'] s Inr obtain t1 where
      "estimate_price ms t = ok t1" and "sell_coin t' = sell_coin t1" by auto
    moreover from this(1) estimate_price_Inr [of ms t "[]" t1] have "sell_coin t1 = sell_coin t"
      by (auto simp add: ok_def)
    ultimately have "sell_coin t' = sell_coin t" by simp
    with assms s Inr show ?thesis
      by (simp add: simulate_def sbind_def lift_def d_get_def getitem_absent raise_def)
  qed
qed

lemma simulate_at_frame:
  assumes "simulate_at h self p nb = (h1, (l, r))"
  shows "length h1 = length h \<and> (\<forall>a. a \<noteq> nb \<longrightarrow> h1 ! a = h ! a)
       \<and> (\<forall>x. r = Inr x \<longrightarrow> x = nb)
       \<and> (nb < length h \<longrightarrow> h1 ! nb = fst (simulate (view h self) p (h ! nb)))
       \<and> (\<forall>x. r = Inr x \<longrightarrow> (\<exists>u. snd (snd (simulate (view h self) p (h ! nb))) = Inr u))
       \<and> (\<forall>e. r = Inl e \<longrightarrow> snd (snd (simulate (view h self) p (h ! nb))) = Inl e)"
  using assms
  by (auto simp add: simulate_at_def split: prod.splits sum.splits)

lemma simulate_loop_frame:
  "simulate_loop h self ts nb = (h', (l, r)) \<Longrightarrow>
     length h' = length h \<and> (\<forall>a. a \<noteq> nb \<longrightarrow> h' ! a = h ! a) \<and> (\<forall>x. r = Inr x \<longrightarrow> x = nb)"
proof (induction ts arbitrary: h h' l r)
  case Nil
  then show ?case by (auto simp add: ok_def)
next
  case (Cons p ps)
  obtain h1 l1 r1 where st: "simulate_at h self p nb = (h1, (l1, r1))"
    by (cases "simulate_at h self p nb") auto
  note fr = simulate_at_frame [OF st]
  show ?case
  proof (cases r1)
    case (Inl e)
    with Cons.prems st fr show ?thesis by auto
  next
    case (Inr x)
    with fr have x: "x = nb" by simp
    obtain h2 l2 r2 where lp: "simulate_loop h1 self ps nb = (h2, (l2, r2))"
      by (cases "simulate_loop h1 self ps nb") auto
    from Cons.prems st Inr x lp have "h' = h2" "r = r2" by auto
    with Cons.IH [OF lp] fr show ?thesis by auto
  qed
qed

lemma simulate_loop_keys:
  "simulate_loop h self ts nb = (h', (l, r)) \<Longrightarrow> nb < length h \<Longrightarrow> contains (h ! nb) k
     \<Longrightarrow> contains (h' ! nb) k"
proof (induction ts arbitrary: h h' l r)
  case Nil
  then show ?case by (auto simp add: ok_def)
next
  case (Cons p ps)
  obtain h1 l1 r1 where st: "simulate_at h self p nb = (h1, (l1, r1))"
    by (cases "simulate_at h self p nb") auto
  note fr = simulate_at_frame [OF st]
  from fr Cons.prems(2) have h1nb: "h1 ! nb = fst (simulate (view h self) p (h ! nb))" by simp
  with simulate_keys [OF Cons.prems(3)] have c1: "contains (h1 ! nb) k" by simp
  from fr Cons.prems(2) have len: "nb < length h1" by simp
  show ?case
  proof (cases r1)
    case (Inl e)
    with Cons.prems(1) st c1 show ?thesis by auto
  next
    case (Inr x)
    with fr have x: "x = nb" by simp
    obtain h2 l2 r2 where lp: "simulate_loop h1 self ps nb = (h2, (l2, r2))"
      by (cases "simulate_loop h1 self ps nb") auto
    from Cons.prems(1) st Inr x lp have "h' = h2" by auto
    with Cons.IH [OF lp len c1] show ?thesis by simp
  qed
qed

lemma simulate_loop_append:
  "simulate_loop h self pre nb = (h1, (l1, Inr nb1)) \<Longrightarrow>
   simulate_loop h self (pre @ ts) nb =
     (case simulate_loop h1 self ts nb1 of (h2, (l2, r)) \<Rightarrow> (h2, (l1 @ l2, r)))"
proof (induction pre arbitrary: h h1 l1)
  case Nil
  then show ?case by (auto simp add: ok_def split: prod.splits)
next
  case (Cons p ps)
  obtain ha la ra where st: "simulate_at h self p nb = (ha, (la, ra))"
    by (cases "simulate_at h self p nb") auto
  show ?case
  proof (cases ra)
    case (Inl e)
    with Cons.prems st show ?thesis by simp
  next
    case (Inr x)
    obtain hb lb rb where lp: "simulate_loop ha self ps x = (hb, (lb, rb))"
      by (cases "simulate_loop ha self ps x") auto
    from simulate_at_frame [OF st] Inr have x: "x = nb" by simp
    from Cons.prems st Inr lp have eq: "hb = h1" "l1 = la @ lb" "rb = Inr nb1" by auto
    from lp eq x have "simulate_loop ha self ps nb = (h1, (lb, Inr nb1))" by simp
    from Cons.IH [OF this] st Inr x eq show ?thesis
      by (auto split: prod.splits)
  qed
qed

lemma simulate_trades_unfold:
  "simulate_trades h self ts = simulate_loop (h @ [h ! balances self]) self ts (length h)"
  by (simp add: simulate_trades_def dict_copy_def)

lemma set_sell_amount_buy_fiat_absent:
  assumes "sell_coin t \<noteq> fiat t" and "buy_coin t = fiat t"
    and "estimate_price ms t = ok t1"
    and "\<not> contains (balances ms) (sell_coin t)"
  shows "set_sell_amount ms t = raise KeyError"
proof -
  from assms(3) have "estimate_price ms t = ([], Inr t1)" by (simp add: ok_def)
  from estimate_price_Inr [OF this] obtain bp p where
    "t1 = t\<lparr>market_price := Some bp, price := Some p\<rparr>" by blast
  with assms show ?thesis
    by (simp add: set_sell_amount_def balance_def getitem_absent)
qed

lemmas run_defs = simulate_trades_unfold simulate_at_def simulate_def sbind_def lift_def
  d_get_def d_set_def set_sell_amount_def estimate_price_def ms_price_def balance_def
  getitem_def setitem_def contains_def as_float_def truediv_def view_def trade_of_def
  snapshot_def chart_of_def Let_def ok_def raise_def emit_def

lemma is_legal_oversized:
  assumes "price t = Some p" and "p \<noteq> 0"
    and "map_of (balances ms) (from_coin t) = Some held" and "held < bid_amount t"
  shows "is_legal t ms = raise NameError"
  using assms by (simp add: is_legal_def getitem_def)

lemma step_never_returns:
  "step get_market_state propose_trades execute adapter history tm \<noteq> Inr v"
  by (simp add: step_def call_estimate_total_value_usd_def raise_def
        split: sum.splits prod.splits)

section \<open>Properties of valuation\<close>

text \<open>
  C6.  Valuing a coin in terms of itself returns the amount unchanged, whatever
  markets the chart data holds, and logs nothing.
\<close>

theorem estimate_value_identity:
  "estimate_value ms c amount c = ([], Inr (Some amount))"
  by (simp add: estimate_value_def ok_def)

text \<open>
  C5, as the code has it.  Let the market \<open>a_b\<close> be in the chart data with a
  \<^verbatim>\<open>weighted_average\<close> of \<open>p\<close>, and let \<open>a\<close> and \<open>b\<close> differ.  Then valuing \<open>x\<close> of
  \<open>b\<close> in terms of \<open>a\<close> gives \<open>x * p\<close>; valuing \<open>x\<close> of \<open>a\<close> in terms of \<open>b\<close> gives
  \<open>x / p\<close> provided the chart data has no market \<open>b_a\<close> (the direct lookup comes
  first) and \<open>p\<close> is not zero.
\<close>

theorem estimate_value_direct_and_inverted:
  assumes "a \<noteq> b"
    and "chart_data ms (market_of a b) = Some stats"
    and "stats ''weighted_average'' = Some p"
  shows "ms_price ms (market_of a b) ''weighted_average'' = ok p
       \<and> estimate_value ms b x a = ok (Some (x * p))
       \<and> (chart_data ms (market_of b a) = None \<and> p \<noteq> 0
            \<longrightarrow> estimate_value ms a x b = ok (Some (x / p)))"
  using assms by (auto simp add: estimate_value_def ms_price_found truediv_def)

theorem estimate_value_direct_and_inverted_witness:
  "estimate_value (snapshot [(''BTC_ETH'', 2)] ()) ''ETH'' 3 ''BTC'' = ok (Some 6)
   \<and> estimate_value (snapshot [(''BTC_ETH'', 2)] ()) ''BTC'' 3 ''ETH'' = ok (Some (3 / 2))"
  using estimate_value_direct_and_inverted [of "''BTC''" "''ETH''"
      "snapshot [(''BTC_ETH'', 2)] ()" "[''weighted_average'' \<mapsto> 2]" 2 3]
  by (simp add: snapshot_def chart_of_def market_of_def)

text \<open>
  The claim as stated fails in three ways.  With both \<open>BTC_ETH\<close> (at 2) and
  \<open>ETH_BTC\<close> (at 3) in the chart data, one BTC in terms of ETH is valued through the
  direct market \<open>ETH_BTC\<close> at 3, not at \<open>1 / 2\<close>.  With \<open>BTC_ETH\<close> at zero the
  inverted lookup raises.  With a market \<open>BTC_BTC\<close> at 2, one BTC in terms of BTC is
  one, not two.
\<close>

theorem estimate_value_inverse_counterexample:
  "chart_data (snapshot [(''BTC_ETH'', 2), (''ETH_BTC'', 3)] ()) (market_of ''BTC'' ''ETH'') \<noteq> None
   \<and> ms_price (snapshot [(''BTC_ETH'', 2), (''ETH_BTC'', 3)] ()) (market_of ''BTC'' ''ETH'')
        ''weighted_average'' = ok 2
   \<and> estimate_value (snapshot [(''BTC_ETH'', 2), (''ETH_BTC'', 3)] ()) ''BTC'' 1 ''ETH''
        = ok (Some 3)
   \<and> estimate_value (snapshot [(''BTC_ETH'', 2), (''ETH_BTC'', 3)] ()) ''BTC'' 1 ''ETH''
        \<noteq> ok (Some (1 / 2))
   \<and> chart_data (snapshot [(''BTC_ETH'', 0)] ()) (market_of ''BTC'' ''ETH'') \<noteq> None
   \<and> estimate_value (snapshot [(''BTC_ETH'', 0)] ()) ''BTC'' 1 ''ETH'' = raise ZeroDivisionError
   \<and> ms_price (snapshot [(''BTC_BTC'', 2)] ()) (market_of ''BTC'' ''BTC'')
        ''weighted_average'' = ok 2
   \<and> estimate_value (snapshot [(''BTC_BTC'', 2)] ()) ''BTC'' 1 ''BTC'' = ok (Some 1)
   \<and> estimate_value (snapshot [(''BTC_BTC'', 2)] ()) ''BTC'' 1 ''BTC'' \<noteq> ok (Some (1 * 2))"
  by (simp add: estimate_value_def snapshot_def chart_of_def market_of_def ms_price_def
        truediv_def ok_def raise_def)

text \<open>
  C7.  When the coin differs from the reference coin and the chart data has neither
  the market \<open>reference_coin\<close> nor the market \<open>coin_reference\<close>, \<open>estimate_value\<close>
  logs one warning and returns \<^verbatim>\<open>None\<close> without raising; \<open>estimate_values\<close> on a
  map holding just that coin logs the warning and returns zero for it; and whenever
  \<open>estimate_values\<close> returns a map for balances that hold the coin, the map gives zero
  for it.
\<close>

theorem estimate_value_unknown_market:
  assumes "coin \<noteq> reference_coin"
    and "chart_data ms (market_of reference_coin coin) = None"
    and "chart_data ms (market_of coin reference_coin) = None"
  shows "estimate_value ms coin amount reference_coin =
           ([LoggerWarning (no_market_message reference_coin coin)], Inr None)
       \<and> estimate_values ms [(coin, amount)] reference_coin =
           ([LoggerWarning (no_market_message reference_coin coin)], Inr [(coin, 0)])
       \<and> (\<forall>bals l vals. estimate_values ms bals reference_coin = (l, Inr vals)
             \<and> coin \<in> fst ` set bals \<longrightarrow> map_of vals coin = Some 0)"
proof (intro conjI allI impI)
  show ev: "estimate_value ms coin amount reference_coin =
           ([LoggerWarning (no_market_message reference_coin coin)], Inr None)"
    by (rule estimate_value_no_market [OF assms])
  show "estimate_values ms [(coin, amount)] reference_coin =
           ([LoggerWarning (no_market_message reference_coin coin)], Inr [(coin, 0)])"
    by (simp add: estimate_values_def ev setitem_def ok_def)
next
  fix bals l vals
  assume "estimate_values ms bals reference_coin = (l, Inr vals) \<and> coin \<in> fst ` set bals"
  then show "map_of vals coin = Some 0"
    using estimate_values_loop_zero [OF assms, of bals "[]" l vals]
    by (simp add: estimate_values_def)
qed

theorem estimate_value_unknown_market_witness:
  "estimate_value (snapshot [(''BTC_ETH'', 2)] ()) ''XRP'' 5 ''BTC'' =
      ([LoggerWarning (no_market_message ''BTC'' ''XRP'')], Inr None)
   \<and> estimate_values (snapshot [(''BTC_ETH'', 2)] ())
        [(''ETH'', 1), (''XRP'', 5), (''BTC'', 4)] ''BTC''
       = ([LoggerWarning (no_market_message ''BTC'' ''XRP'')],
          Inr [(''ETH'', 2), (''XRP'', 0), (''BTC'', 4)])"
  using estimate_value_unknown_market [of "''XRP''" "''BTC''" "snapshot [(''BTC_ETH'', 2)] ()" 5]
  by (simp add: snapshot_def chart_of_def market_of_def estimate_values_def estimate_value_def
        ms_price_def setitem_def ok_def emit_def)

section \<open>Properties of trade sizing\<close>

text \<open>
  C3.  Let the trade sell its fiat.  Whenever \<open>set_sell_amount\<close> returns a trade, its
  \<open>sell_amount\<close> is \<open>fiat_value_to_trade\<close> and its \<open>buy_amount\<close> is
  \<open>sell_amount * (1 - fee) / price\<close>, the price being the direction-adjusted one and
  not zero; and it does return that trade, logging nothing, whenever \<open>estimate_price\<close>
  gives a price that is not zero.  In particular \<open>fiat_value_to_trade = 100\<close>,
  \<open>fee = 0.0025\<close> and a price of 2 give \<open>sell_amount = 100\<close> and
  \<open>buy_amount = 49.875\<close>.
\<close>

theorem set_sell_amount_sell_fiat:
  assumes "sell_coin t = fiat t"
  shows "(\<forall>l t'. set_sell_amount ms t = (l, Inr t') \<longrightarrow>
            sell_amount t' = Some (fiat_value_to_trade t)
            \<and> (\<exists>p. price t' = Some p \<and> p \<noteq> 0
                 \<and> buy_amount t' = Some (fiat_value_to_trade t * (1 - fee t) / p)))
       \<and> (\<forall>t1 p. estimate_price ms t = ok t1 \<and> price t1 = Some p \<and> p \<noteq> 0 \<longrightarrow>
            set_sell_amount ms t =
              ok (t1\<lparr>sell_amount := Some (fiat_value_to_trade t),
                      buy_amount := Some (fiat_value_to_trade t * (1 - fee t) / p)\<rparr>))
       \<and> (\<forall>l t'. set_sell_amount ms t = (l, Inr t') \<and> fiat_value_to_trade t = 100
            \<and> fee t = 25 / 10000 \<and> price t' = Some 2 \<longrightarrow>
            sell_amount t' = Some 100 \<and> buy_amount t' = Some (49875 / 1000))"
proof -
  have res: "sell_amount t' = Some (fiat_value_to_trade t)
            \<and> (\<exists>p. price t' = Some p \<and> p \<noteq> 0
                 \<and> buy_amount t' = Some (fiat_value_to_trade t * (1 - fee t) / p))"
    if ret: "set_sell_amount ms t = (l, Inr t')" for l t'
  proof -
    obtain l1 r1 where ep: "estimate_price ms t = (l1, r1)"
      by (cases "estimate_price ms t")
    show ?thesis
    proof (cases r1)
      case (Inl e)
      with ret ep show ?thesis by (simp add: set_sell_amount_def)
    next
      case (Inr t1)
      with ep estimate_price_Inr [of ms t l1 t1] obtain bp p where
        l1: "l1 = []" and t1: "t1 = t\<lparr>market_price := Some bp, price := Some p\<rparr>"
        by blast
      have ep': "estimate_price ms t = ok t1" using ep Inr l1 by (simp add: ok_def)
      have "price t1 = Some p" using t1 by simp
      from set_sell_amount_sell_fiat_eq [OF assms ep' this] ret
      show ?thesis using t1 by (auto simp add: ok_def raise_def split: if_splits)
    qed
  qed
  have tot: "set_sell_amount ms t =
              ok (t1\<lparr>sell_amount := Some (fiat_value_to_trade t),
                      buy_amount := Some (fiat_value_to_trade t * (1 - fee t) / p)\<rparr>)"
    if "estimate_price ms t = ok t1 \<and> price t1 = Some p \<and> p \<noteq> 0" for t1 p
    using set_sell_amount_sell_fiat_eq [OF assms, of ms t1 p] that by simp
  have ex: "sell_amount t' = Some 100 \<and> buy_amount t' = Some (49875 / 1000)"
    if "set_sell_amount ms t = (l, Inr t') \<and> fiat_value_to_trade t = 100
            \<and> fee t = 25 / 10000 \<and> price t' = Some 2" for l t'
    using res [of l t'] that by auto
  from res tot ex show ?thesis by blast
qed

theorem set_sell_amount_sell_fiat_witness:
  "sell_coin (trade_of ''BTC'' ''ETH'' ''BTC_ETH'' ''BTC'' ''BTC'' 100 (25 / 10000))
     = fiat (trade_of ''BTC'' ''ETH'' ''BTC_ETH'' ''BTC'' ''BTC'' 100 (25 / 10000))
   \<and> set_sell_amount (snapshot [(''BTC_ETH'', 2)] [(''BTC'', 500)])
      (trade_of ''BTC'' ''ETH'' ''BTC_ETH'' ''BTC'' ''BTC'' 100 (25 / 10000))
    = ok ((trade_of ''BTC'' ''ETH'' ''BTC_ETH'' ''BTC'' ''BTC'' 100 (25 / 10000))
           \<lparr>market_price := Some 2, price := Some 2, sell_amount := Some 100,
            buy_amount := Some (49875 / 1000)\<rparr>)"
proof -
  let ?t = "trade_of ''BTC'' ''ETH'' ''BTC_ETH'' ''BTC'' ''BTC'' 100 (25 / 10000)"
  let ?ms = "snapshot [(''BTC_ETH'', 2)] [(''BTC'', 500)]"
  have shape: "sell_coin ?t = fiat ?t" by (simp add: trade_of_def)
  have ep: "estimate_price ?ms ?t = ok (?t\<lparr>market_price := Some 2, price := Some 2\<rparr>)"
    by (simp add: trade_of_def snapshot_def chart_of_def estimate_price_def ms_price_def)
  have "set_sell_amount ?ms ?t =
      ok (?t\<lparr>market_price := Some 2, price := Some 2,
              sell_amount := Some (fiat_value_to_trade ?t),
              buy_amount := Some (fiat_value_to_trade ?t * (1 - fee ?t) / 2)\<rparr>)"
  proof -
    note inst = set_sell_amount_sell_fiat [OF shape, of ?ms, THEN conjunct2, THEN conjunct1,
        rule_format, of "?t\<lparr>market_price := Some 2, price := Some 2\<rparr>" 2]
    from ep have "set_sell_amount ?ms ?t =
       ok (?t\<lparr>market_price := Some 2, price := Some 2\<rparr>
            \<lparr>sell_amount := Some (fiat_value_to_trade ?t),
             buy_amount := Some (fiat_value_to_trade ?t * (1 - fee ?t) / 2)\<rparr>)"
      by (intro inst) simp
    then show ?thesis by simp
  qed
  then show ?thesis using shape by (simp add: trade_of_def)
qed

text \<open>
  C4, as the code has it.  Let \<open>set_sell_amount\<close> return a trade.  If the trade sells
  its fiat, \<open>sell_amount\<close> is \<open>fiat_value_to_trade\<close> as given, whatever its sign.
  Otherwise the trade buys its fiat, and \<open>sell_amount\<close> is the larger of zero and
  \<open>(balance(sell_coin) * price - fiat_value_to_trade) / price\<close>: it is never negative,
  and it is zero whenever the price is positive and
  \<open>balance(sell_coin) * price < fiat_value_to_trade\<close>.
\<close>

theorem set_sell_amount_sell_amount_sign:
  assumes "set_sell_amount ms t = (l, Inr t')"
  shows "(sell_coin t = fiat t \<longrightarrow> sell_amount t' = Some (fiat_value_to_trade t))
       \<and> (sell_coin t \<noteq> fiat t \<longrightarrow> buy_coin t = fiat t
            \<and> (\<exists>held p s. balance ms (sell_coin t) = ok held \<and> price t' = Some p \<and> p \<noteq> 0
                 \<and> sell_amount t' = Some s
                 \<and> s = max 0 ((held * p - fiat_value_to_trade t) / p)
                 \<and> 0 \<le> s
                 \<and> (0 < p \<and> held * p < fiat_value_to_trade t \<longrightarrow> s = 0)))"
proof -
  from set_sell_amount_Inr [OF assms] obtain t1 p s where
    ep: "estimate_price ms t = ok t1" and pr: "price t1 = Some p" and pz: "p \<noteq> 0"
    and t': "t' = t1\<lparr>sell_amount := Some s, buy_amount := Some ((s - s * fee t) / p)\<rparr>"
    and sh: "if sell_coin t = fiat t then s = fiat_value_to_trade t
              else buy_coin t = fiat t \<and> (\<exists>held. balance ms (sell_coin t) = ok held
                \<and> s = max 0 ((held * p - fiat_value_to_trade t) / p))"
    by blast
  show ?thesis
  proof (cases "sell_coin t = fiat t")
    case True
    with sh t' show ?thesis by simp
  next
    case False
    with sh obtain held where bf: "buy_coin t = fiat t"
      and b: "balance ms (sell_coin t) = ok held"
      and s: "s = max 0 ((held * p - fiat_value_to_trade t) / p)" by auto
    have clamp: "s = 0" if "0 < p \<and> held * p < fiat_value_to_trade t"
    proof -
      from that have "(held * p - fiat_value_to_trade t) / p < 0"
        by (simp add: divide_less_0_iff)
      with s show ?thesis by simp
    qed
    have "0 \<le> s" using s by simp
    with False bf b pr pz t' s clamp show ?thesis by auto
  qed
qed

theorem set_sell_amount_sell_amount_sign_witness:
  "set_sell_amount (snapshot [(''BTC_ETH'', 2)] [(''ETH'', 1), (''BTC'', 0)])
      (trade_of ''ETH'' ''BTC'' ''BTC_ETH'' ''BTC'' ''BTC'' 1 (25 / 10000))
    = ok ((trade_of ''ETH'' ''BTC'' ''BTC_ETH'' ''BTC'' ''BTC'' 1 (25 / 10000))
           \<lparr>market_price := Some 2, price := Some (1 / 2), sell_amount := Some 0,
            buy_amount := Some 0\<rparr>)
   \<and> buy_coin (trade_of ''ETH'' ''BTC'' ''BTC_ETH'' ''BTC'' ''BTC'' 1 (25 / 10000))
       = fiat (trade_of ''ETH'' ''BTC'' ''BTC_ETH'' ''BTC'' ''BTC'' 1 (25 / 10000))"
proof -
  let ?t = "trade_of ''ETH'' ''BTC'' ''BTC_ETH'' ''BTC'' ''BTC'' 1 (25 / 10000)"
  let ?ms = "snapshot [(''BTC_ETH'', 2)] [(''ETH'', 1), (''BTC'', 0)]"
  let ?t' = "?t\<lparr>market_price := Some 2, price := Some (1 / 2), sell_amount := Some 0,
            buy_amount := Some 0\<rparr>"
  have ev: "set_sell_amount ?ms ?t = ([], Inr ?t')"
    by (simp add: set_sell_amount_def estimate_price_def ms_price_def balance_def getitem_def
          as_float_def truediv_def trade_of_def snapshot_def chart_of_def Let_def ok_def)
  from set_sell_amount_sell_amount_sign [OF ev] have "buy_coin ?t = fiat ?t"
    by (simp add: trade_of_def)
  with ev show ?thesis by (simp add: ok_def)
qed

text \<open>
  The claim as stated fails on a trade that sells its fiat with a negative
  \<open>fiat_value_to_trade\<close>: the amount is taken over unclamped.  And on a trade that buys
  its fiat at a negative price, \<open>balance * price < fiat_value_to_trade\<close> does not lead to
  the clamp, the quotient being positive.
\<close>

theorem set_sell_amount_negative_counterexample:
  "sell_coin (trade_of ''BTC'' ''ETH'' ''BTC_ETH'' ''BTC'' ''BTC'' (- 1) (25 / 10000))
     = fiat (trade_of ''BTC'' ''ETH'' ''BTC_ETH'' ''BTC'' ''BTC'' (- 1) (25 / 10000))
   \<and> set_sell_amount (snapshot [(''BTC_ETH'', 2)] [(''BTC'', 1)])
      (trade_of ''BTC'' ''ETH'' ''BTC_ETH'' ''BTC'' ''BTC'' (- 1) (25 / 10000))
    = ok ((trade_of ''BTC'' ''ETH'' ''BTC_ETH'' ''BTC'' ''BTC'' (- 1) (25 / 10000))
           \<lparr>market_price := Some 2, price := Some 2, sell_amount := Some (- 1),
            buy_amount := Some (- 399 / 800)\<rparr>)
   \<and> balance (snapshot [(''BTC_ETH'', - 2)] [(''ETH'', 1), (''BTC'', 0)]) ''ETH'' = ok 1
   \<and> (1::real) * (- 1 / 2) < 0
   \<and> set_sell_amount (snapshot [(''BTC_ETH'', - 2)] [(''ETH'', 1), (''BTC'', 0)])
      (trade_of ''ETH'' ''BTC'' ''BTC_ETH'' ''BTC'' ''BTC'' 0 (25 / 10000))
    = ok ((trade_of ''ETH'' ''BTC'' ''BTC_ETH'' ''BTC'' ''BTC'' 0 (25 / 10000))
           \<lparr>market_price := Some (- 2), price := Some (- 1 / 2), sell_amount := Some 1,
            buy_amount := Some (- 399 / 200)\<rparr>)"
  by (simp add: set_sell_amount_def estimate_price_def ms_price_def balance_def getitem_def
        as_float_def truediv_def trade_of_def snapshot_def chart_of_def Let_def ok_def)

section \<open>The shape test of set_sell_amount\<close>

text \<open>
  C9, as the code has it.  On a trade of which neither leg is its fiat,
  \<open>set_sell_amount\<close> never returns a trade: it ends by an exception.  When
  \<open>estimate_price\<close> succeeds, the warning is logged and the exception is that of
  the bare \<^verbatim>\<open>raise\<close>; when \<open>estimate_price\<close> raises, its exception is the one
  that propagates, and nothing is logged.
\<close>

theorem set_sell_amount_no_fiat_leg:
  assumes "sell_coin t \<noteq> fiat t" and "buy_coin t \<noteq> fiat t"
  shows "(\<exists>e. snd (set_sell_amount ms t) = Inl e)
       \<and> (\<forall>t1. estimate_price ms t = ok t1 \<longrightarrow>
             set_sell_amount ms t = ([LoggerWarning neither_fiat_message], Inl RuntimeError))
       \<and> (\<forall>e. estimate_price ms t = raise e \<longrightarrow> set_sell_amount ms t = raise e)"
proof -
  obtain l1 r1 where ep: "estimate_price ms t = (l1, r1)"
    by (cases "estimate_price ms t")
  have l1: "l1 = []" using estimate_price_log [OF ep] .
  have shape: "sell_coin t1 \<noteq> fiat t1 \<and> buy_coin t1 \<noteq> fiat t1"
    if "estimate_price ms t = ok t1" for t1
  proof -
    from that have "estimate_price ms t = ([], Inr t1)" by (simp add: ok_def)
    from estimate_price_Inr [OF this] assms show ?thesis by auto
  qed
  have a: "set_sell_amount ms t = ([LoggerWarning neither_fiat_message], Inl RuntimeError)"
    if "estimate_price ms t = ok t1" for t1
    using that shape [OF that] by (simp add: set_sell_amount_def emit_def raise_def)
  have b: "set_sell_amount ms t = raise e" if "estimate_price ms t = raise e" for e
    using that by (simp add: set_sell_amount_def)
  have "\<exists>e. snd (set_sell_amount ms t) = Inl e"
  proof (cases r1)
    case (Inl e)
    with ep l1 have "estimate_price ms t = raise e" by (simp add: raise_def)
    from b [OF this] show ?thesis by (simp add: raise_def)
  next
    case (Inr t1)
    with ep l1 have "estimate_price ms t = ok t1" by (simp add: ok_def)
    from a [OF this] show ?thesis by simp
  qed
  with a b show ?thesis by blast
qed

theorem set_sell_amount_no_fiat_leg_witness:
  "set_sell_amount (snapshot [(''ETH_XRP'', 2)] [(''ETH'', 1)])
      (trade_of ''ETH'' ''XRP'' ''ETH_XRP'' ''ETH'' ''BTC'' 1 (25 / 10000))
    = ([LoggerWarning neither_fiat_message], Inl RuntimeError)"
proof -
  let ?t = "trade_of ''ETH'' ''XRP'' ''ETH_XRP'' ''ETH'' ''BTC'' 1 (25 / 10000)"
  let ?ms = "snapshot [(''ETH_XRP'', 2)] [(''ETH'', 1)]"
  have s: "sell_coin ?t \<noteq> fiat ?t" and b: "buy_coin ?t \<noteq> fiat ?t"
    by (simp_all add: trade_of_def)
  have ep: "estimate_price ?ms ?t = ok (?t\<lparr>market_price := Some 2, price := Some 2\<rparr>)"
    by (simp add: trade_of_def snapshot_def chart_of_def estimate_price_def ms_price_def)
  from set_sell_amount_no_fiat_leg [OF s b, of ?ms, THEN conjunct2, THEN conjunct1,
      rule_format, OF ep]
  show ?thesis .
qed

text \<open>
  The claim as stated fails on a trade whose market is not in the chart data: the
  price lookup raises before the shape test, and no warning is logged.
\<close>

theorem set_sell_amount_no_fiat_leg_counterexample:
  "sell_coin (trade_of ''ETH'' ''XRP'' ''ETH_XRP'' ''ETH'' ''BTC'' 1 (25 / 10000))
     \<noteq> fiat (trade_of ''ETH'' ''XRP'' ''ETH_XRP'' ''ETH'' ''BTC'' 1 (25 / 10000))
   \<and> buy_coin (trade_of ''ETH'' ''XRP'' ''ETH_XRP'' ''ETH'' ''BTC'' 1 (25 / 10000))
     \<noteq> fiat (trade_of ''ETH'' ''XRP'' ''ETH_XRP'' ''ETH'' ''BTC'' 1 (25 / 10000))
   \<and> set_sell_amount (snapshot [(''BTC_ETH'', 2)] [(''ETH'', 1)])
      (trade_of ''ETH'' ''XRP'' ''ETH_XRP'' ''ETH'' ''BTC'' 1 (25 / 10000))
    = ([], Inl KeyError)"
  by (simp add: set_sell_amount_def estimate_price_def ms_price_def trade_of_def snapshot_def
        chart_of_def raise_def)

section \<open>Properties of simulate_trades\<close>

text \<open>
  C8.  Let the snapshot's reference to its balances be valid in the store.  On an
  empty list of trades \<open>simulate_trades\<close> returns a reference to a newly allocated
  dict whose items equal those of the snapshot's balances.  On every list of trades,
  however the call ends, every dict that existed before the call, the snapshot's own
  balances among them, has the items it had; and a reference that is returned is the
  newly allocated one, different from the snapshot's.
\<close>

theorem simulate_trades_fresh_map:
  assumes "balances self < length h"
  shows "simulate_trades h self [] = (h @ [h ! balances self], ok (length h))
       \<and> (h @ [h ! balances self]) ! length h = h ! balances self
       \<and> (\<forall>ts h' l r. simulate_trades h self ts = (h', (l, r)) \<longrightarrow>
             (\<forall>a < length h. h' ! a = h ! a)
             \<and> h' ! balances self = h ! balances self
             \<and> (\<forall>nb. r = Inr nb \<longrightarrow> nb = length h \<and> nb \<noteq> balances self))"
proof -
  have empty: "simulate_trades h self [] = (h @ [h ! balances self], ok (length h))"
    by (simp add: simulate_trades_unfold)
  have same: "(h @ [h ! balances self]) ! length h = h ! balances self"
    by simp
  have frame: "(\<forall>a < length h. h' ! a = h ! a)
             \<and> h' ! balances self = h ! balances self
             \<and> (\<forall>nb. r = Inr nb \<longrightarrow> nb = length h \<and> nb \<noteq> balances self)"
    if run: "simulate_trades h self ts = (h', (l, r))" for ts h' l r
  proof -
    from run have "simulate_loop (h @ [h ! balances self]) self ts (length h) = (h', (l, r))"
      by (simp add: simulate_trades_unfold)
    note fr = simulate_loop_frame [OF this]
    have old: "h' ! a = h ! a" if "a < length h" for a
    proof -
      from that have "a \<noteq> length h" by simp
      with fr have "h' ! a = (h @ [h ! balances self]) ! a" by blast
      with that show ?thesis by (simp add: nth_append)
    qed
    from fr assms have "\<forall>nb. r = Inr nb \<longrightarrow> nb = length h \<and> nb \<noteq> balances self" by auto
    with old old [OF assms] show ?thesis by blast
  qed
  from empty same frame show ?thesis by blast
qed

theorem simulate_trades_fresh_map_witness:
  "simulate_trades [[(''BTC'', 1)]] (snapshot [(''BTC_ETH'', 2)] 0) []
     = ([[(''BTC'', 1)], [(''BTC'', 1)]], ok 1)
   \<and> simulate_trades [[(''BTC'', 1)]] (snapshot [(''BTC_ETH'', 2)] 0)
       [trade_of ''BTC'' ''ETH'' ''BTC_ETH'' ''BTC'' ''BTC'' (1 / 2) (25 / 10000)]
     = ([[(''BTC'', 1)], [(''BTC'', 1 / 2), (''ETH'', 1 / 4)]], ok 1)"
proof -
  let ?h = "[[(''BTC'', 1::real)]]"
  let ?self = "snapshot [(''BTC_ETH'', 2)] (0::nat)"
  have valid: "balances ?self < length ?h" by (simp add: snapshot_def)
  have run: "simulate_trades ?h ?self
       [trade_of ''BTC'' ''ETH'' ''BTC_ETH'' ''BTC'' ''BTC'' (1 / 2) (25 / 10000)]
     = ([[(''BTC'', 1)], [(''BTC'', 1 / 2), (''ETH'', 1 / 4)]], ([], Inr 1))"
    by (simp add: run_defs)
  from simulate_trades_fresh_map [OF valid] have
    "simulate_trades ?h ?self [] = (?h @ [?h ! balances ?self], ok (length ?h))" by blast
  with run show ?thesis by (simp add: snapshot_def ok_def)
qed

text \<open>
  C10, as the code has it.  Let the trades before \<open>t\<close> have run without an exception,
  and let \<open>sell_coin t\<close> be absent from the running balances then.  Then
  \<open>simulate_trades\<close> ends by an exception, whatever trades follow: by \<^verbatim>\<open>KeyError\<close>,
  or else by the exception that sizing \<open>t\<close> raised.  It is \<^verbatim>\<open>KeyError\<close> whenever one
  leg of \<open>t\<close> is its fiat and \<open>estimate_price\<close> gives a price that is not zero.
\<close>

theorem simulate_trades_missing_sell_coin:
  assumes "balances self < length h"
    and "simulate_loop (h @ [h ! balances self]) self pre (length h) = (h1, (l1, Inr nb))"
    and "\<not> contains (h1 ! nb) (sell_coin t)"
  shows "\<exists>e. snd (snd (simulate_trades h self (pre @ t # post))) = Inl e
          \<and> (e = KeyError \<or> snd (set_sell_amount (view h1 self) t) = Inl e)
          \<and> ((sell_coin t = fiat t \<or> buy_coin t = fiat t)
               \<and> (\<exists>t1 p. estimate_price (view h1 self) t = ok t1 \<and> price t1 = Some p \<and> p \<noteq> 0)
               \<longrightarrow> e = KeyError)"
proof -
  note fr = simulate_loop_frame [OF assms(2)]
  from fr have nb: "nb = length h" and len: "length h1 = Suc (length h)" by auto
  from simulate_absent [OF assms(3), of "view h1 self"] obtain e where
    e: "snd (snd (simulate (view h1 self) t (h1 ! nb))) = Inl e"
    and src: "e = KeyError \<or> snd (set_sell_amount (view h1 self) t) = Inl e" by blast
  obtain d2 l2 r2 where sim: "simulate (view h1 self) t (h1 ! nb) = (d2, (l2, r2))"
    by (cases "simulate (view h1 self) t (h1 ! nb)") auto
  with e have "r2 = Inl e" by simp
  with sim have at: "simulate_at h1 self t nb = (h1[nb := d2], (l2, Inl e))"
    by (simp add: simulate_at_def)
  have "simulate_loop h1 self (t # post) nb = (h1[nb := d2], (l2, Inl e))"
    using at by simp
  with simulate_loop_append [OF assms(2), of "t # post"]
  have res: "snd (snd (simulate_trades h self (pre @ t # post))) = Inl e"
    by (simp add: simulate_trades_unfold)
  have key: "e = KeyError"
    if shape: "sell_coin t = fiat t \<or> buy_coin t = fiat t"
      and ep: "estimate_price (view h1 self) t = ok t1" and pr: "price t1 = Some p"
      and pz: "p \<noteq> 0" for t1 p
  proof (cases "sell_coin t = fiat t")
    case True
    from set_sell_amount_sell_fiat_eq [OF True ep pr] pz src show ?thesis
      by (auto simp add: ok_def)
  next
    case False
    with shape have bf: "buy_coin t = fiat t" by simp
    have "\<not> contains (h ! balances self) (sell_coin t)"
    proof
      assume "contains (h ! balances self) (sell_coin t)"
      then have "contains ((h @ [h ! balances self]) ! length h) (sell_coin t)" by simp
      from simulate_loop_keys [OF assms(2) _ this] have "contains (h1 ! length h) (sell_coin t)"
        by simp
      with assms(3) nb show False by simp
    qed
    moreover have "h1 ! balances self = h ! balances self"
    proof -
      from assms(1) have "balances self \<noteq> length h" by simp
      with fr have "h1 ! balances self = (h @ [h ! balances self]) ! balances self" by blast
      with assms(1) show ?thesis by (simp add: nth_append)
    qed
    ultimately have "\<not> contains (balances (view h1 self)) (sell_coin t)"
      by (simp add: view_def)
    from set_sell_amount_buy_fiat_absent [OF False bf ep this] src show ?thesis
      by (auto simp add: raise_def)
  qed
  from res src key show ?thesis by blast
qed

theorem simulate_trades_missing_sell_coin_witness:
  "snd (snd (simulate_trades [[(''BTC'', 1)]] (snapshot [(''BTC_ETH'', 2), (''BTC_XRP'', 4)] 0)
       [trade_of ''BTC'' ''ETH'' ''BTC_ETH'' ''BTC'' ''BTC'' (1 / 2) (25 / 10000),
        trade_of ''XRP'' ''BTC'' ''BTC_XRP'' ''BTC'' ''XRP'' 1 (25 / 10000)]))
     = Inl KeyError"
proof -
  let ?h = "[[(''BTC'', 1::real)]]"
  let ?self = "snapshot [(''BTC_ETH'', 2), (''BTC_XRP'', 4)] (0::nat)"
  let ?p = "trade_of ''BTC'' ''ETH'' ''BTC_ETH'' ''BTC'' ''BTC'' (1 / 2) (25 / 10000)"
  let ?t = "trade_of ''XRP'' ''BTC'' ''BTC_XRP'' ''BTC'' ''XRP'' 1 (25 / 10000)"
  let ?h1 = "[[(''BTC'', 1::real)], [(''BTC'', 1 / 2), (''ETH'', 1 / 4)]]"
  have valid: "balances ?self < length ?h" by (simp add: snapshot_def)
  have pre: "simulate_loop (?h @ [?h ! balances ?self]) ?self [?p] (length ?h)
               = (?h1, ([], Inr 1))"
    by (simp add: run_defs)
  have absent: "\<not> contains (?h1 ! 1) (sell_coin ?t)"
    by (simp add: contains_def trade_of_def)
  from simulate_trades_missing_sell_coin [OF valid pre absent, of "[]"] obtain e where
    res: "snd (snd (simulate_trades ?h ?self ([?p] @ [?t]))) = Inl e"
    and key: "(sell_coin ?t = fiat ?t \<or> buy_coin ?t = fiat ?t)
               \<and> (\<exists>t1 p. estimate_price (view ?h1 ?self) ?t = ok t1 \<and> price t1 = Some p \<and> p \<noteq> 0)
               \<longrightarrow> e = KeyError"
    by blast
  have ep: "estimate_price (view ?h1 ?self) ?t
              = ok (?t\<lparr>market_price := Some 4, price := Some (1 / 4)\<rparr>)"
    by (simp add: trade_of_def snapshot_def chart_of_def view_def estimate_price_def
          ms_price_def truediv_def)
  from ep have "estimate_price (view ?h1 ?self) ?t
        = ok (?t\<lparr>market_price := Some 4, price := Some (1 / 4)\<rparr>)
      \<and> price (?t\<lparr>market_price := Some 4, price := Some (1 / 4)\<rparr>) = Some (1 / 4)
      \<and> (1 / 4 :: real) \<noteq> 0"
    by simp
  then have "\<exists>t1 p. estimate_price (view ?h1 ?self) ?t = ok t1 \<and> price t1 = Some p \<and> p \<noteq> 0"
    by blast
  moreover have "sell_coin ?t = fiat ?t" by (simp add: trade_of_def)
  ultimately have "e = KeyError" using key by blast
  with res show ?thesis by simp
qed

text \<open>
  The claim as stated fails on a trade of which neither leg is its fiat: its sell coin
  is absent from the balances, and the call ends by the exception of the shape test
  of \<open>set_sell_amount\<close>, before the balances are read.
\<close>

theorem simulate_trades_missing_sell_coin_counterexample:
  "\<not> contains ([[(''BTC'', 1)]] ! 0)
       (sell_coin (trade_of ''XRP'' ''ETH'' ''BTC_ETH'' ''BTC'' ''BTC'' 1 (25 / 10000)))
   \<and> simulate_trades [[(''BTC'', 1)]] (snapshot [(''BTC_ETH'', 2)] 0)
       [trade_of ''XRP'' ''ETH'' ''BTC_ETH'' ''BTC'' ''BTC'' 1 (25 / 10000)]
     = ([[(''BTC'', 1)], [(''BTC'', 1)]],
        ([LoggerWarning neither_fiat_message], Inl RuntimeError))"
  by (simp add: run_defs)

section \<open>The legality filter and the cycle\<close>

text \<open>
  C1, on the code.  One trade with a price, bidding 2 BTC against a balance of 1 BTC:
  consumed to the end, \<open>filter_legal\<close> prints nothing, yields nothing, and ends by
  \<^verbatim>\<open>NameError\<close> instead of skipping the trade.
\<close>

theorem filter_legal_oversized_bid:
  "filter_legal
     [(trade_of ''BTC'' ''ETH'' ''BTC_ETH'' ''BTC'' ''BTC'' 2 (25 / 10000))
        \<lparr>price := Some 2, bid_amount := 2, ask_amount := 1\<rparr>]
     (snapshot [(''BTC_ETH'', 2)] [(''BTC'', 1), (''ETH'', 0)])
   = ([], [], Some NameError)
   \<and> getitem (balances (snapshot [(''BTC_ETH'', 2)] [(''BTC'', 1), (''ETH'', 0)]))
       (from_coin ((trade_of ''BTC'' ''ETH'' ''BTC_ETH'' ''BTC'' ''BTC'' 2 (25 / 10000))
        \<lparr>price := Some 2, bid_amount := 2, ask_amount := 1\<rparr>)) = ok 1"
  by (simp add: is_legal_def getitem_def trade_of_def snapshot_def raise_def ok_def)

text \<open>
  C2, on the code.  With a strategy that proposes no trades, on a snapshot holding one
  BTC at 10000 USD, \<open>step\<close> ends by \<^verbatim>\<open>TypeError\<close>: it calls
  \<open>estimate_total_value_usd\<close> without the balances.  Applied to the balances, that
  method returns 10000.
\<close>

theorem step_raises_type_error:
  "step (\<lambda>adapter tm. Inr (adapter,
           snapshot [(''USD_BTC'', 10000)] [(''BTC'', 1), (''USD'', 0)]))
        (\<lambda>market_state history. Inr [])
        (\<lambda>adapter trades market_state. Inr adapter) () () ()
     = Inl TypeError
   \<and> estimate_total_value_usd (snapshot [(''USD_BTC'', 10000)] [(''BTC'', 1), (''USD'', 0)])
        [(''BTC'', 1), (''USD'', 0)] = ok 10000"
proof -
  have r: "round2 10000 = 10000"
    by (simp add: round2_def round_half_even_def Let_def)
  have v: "estimate_values (snapshot [(''USD_BTC'', 10000)] [(''BTC'', 1), (''USD'', 0)])
        [(''BTC'', 1), (''USD'', 0)] ''BTC'' = ok [(''BTC'', 1), (''USD'', 0)]"
    by (simp add: estimate_values_def estimate_value_def market_of_def snapshot_def
          chart_of_def ms_price_def truediv_def setitem_def)
  have "estimate_total_value_usd (snapshot [(''USD_BTC'', 10000)] [(''BTC'', 1), (''USD'', 0)])
        [(''BTC'', 1), (''USD'', 0)] = ok 10000"
    by (simp add: estimate_total_value_usd_def estimate_total_value_def v r)
       (simp add: ms_price_def snapshot_def chart_of_def r)
  then show ?thesis
    by (simp add: step_def call_estimate_total_value_usd_def raise_def)
qed

end
